theory Spec2Isabelle
  imports Main "HOL-Library.FSet"
begin

section \<open>The gateway router of \<^verbatim>\<open>api/endpoints.py\<close>\<close>

text \<open>
  The module is one FastAPI router with five handlers. Two of them proxy a call to the
  EIDO Agent through \<^verbatim>\<open>httpx\<close>, one adds to the module-level set
  \<^verbatim>\<open>claimed_incidents\<close>, one lists that set, one returns a constant.

  Python \<^verbatim>\<open>str\<close> and \<^verbatim>\<open>bytes\<close> values are lists of
  \<^typ>\<open>char\<close>; status codes are Python ints. The JSON values that travel between the
  client and the Agent are never inspected by the handlers, so their type is the type
  variable \<open>'j\<close>.
\<close>

type_synonym str = string
type_synonym bytes = "char list"

subsection \<open>Values the handlers build themselves\<close>

text \<open>
  The Python values that occur below. A dict is an association list in insertion order;
  the two dict literals of the module are \<^verbatim>\<open>{"message": f"..."}\<close> and
  \<^verbatim>\<open>{"status": "new", "correlation_id": None}\<close>.
\<close>

datatype py_value = PyNone | PyInt int | PyStr str | PyDict "(str \<times> py_value) list"

type_synonym py_dict = "(str \<times> py_value) list"

subsection \<open>Responses and exceptions\<close>

text \<open>
  What a handler reads of an \<^verbatim>\<open>httpx.Response\<close>: \<^verbatim>\<open>status_code\<close>,
  \<^verbatim>\<open>text\<close> (the body decoded to a str, here \<open>resp_text\<close>) and \<^verbatim>\<open>content\<close> (the raw
  body, which \<^verbatim>\<open>response.json()\<close> hands to \<^verbatim>\<open>json.loads\<close>).
\<close>

record response =
  status_code :: int
  resp_text :: str
  content :: bytes

text \<open>
  The subclasses of \<^verbatim>\<open>httpx.RequestError\<close>: every failure of the transport
  (connection refused and DNS failure are \<open>ConnectError\<close>, the four timeouts, broken
  reads and writes, protocol and proxy errors) and the two non-transport ones.
\<close>

datatype request_error =
    ConnectError | ConnectTimeout | ReadTimeout | WriteTimeout | PoolTimeout
  | ReadError | WriteError | CloseError
  | LocalProtocolError | RemoteProtocolError | ProxyError | UnsupportedProtocol
  | DecodingError | TooManyRedirects

text \<open>
  The exceptions a library call can raise, by the classes the \<^verbatim>\<open>except\<close>
  clauses of the module tell apart. \<open>RequestError k m\<close> and \<open>JSONDecodeError m\<close> carry
  \<^verbatim>\<open>str(e)\<close>; \<open>OtherException c m\<close> is any other subclass of
  \<^verbatim>\<open>Exception\<close> (class name \<open>c\<close>, \<^verbatim>\<open>str(e)\<close> = \<open>m\<close>), for instance
  the \<^verbatim>\<open>UnicodeDecodeError\<close> of \<^verbatim>\<open>json.loads\<close> on bytes that are not
  UTF-8; \<open>BaseExceptionOnly c\<close> is a \<^verbatim>\<open>BaseException\<close> that is not an
  \<^verbatim>\<open>Exception\<close> (\<^verbatim>\<open>asyncio.CancelledError\<close>,
  \<^verbatim>\<open>KeyboardInterrupt\<close>).
\<close>

datatype py_exception =
    HTTPStatusError response
  | RequestError request_error str
  | JSONDecodeError str
  | OtherException str str
  | BaseExceptionOnly str

text \<open>
  How a handler ends when it does not return: it raised
  \<^verbatim>\<open>HTTPException(status_code, detail)\<close> itself, or an exception of a library
  call left the handler uncaught.
\<close>

datatype failure = HTTPException int str | Unhandled py_exception

subsection \<open>The environment of the handlers\<close>

text \<open>
  \<open>eido_agent_url\<close> is \<^verbatim>\<open>settings.eido_agent_url\<close>. \<open>json_loads\<close> is
  \<^verbatim>\<open>json.loads\<close> on bytes. \<open>send\<close> is the Agent as seen through
  \<^verbatim>\<open>httpx.AsyncClient\<close>: for a call, the response it returns or the exception
  the client raises.
\<close>

datatype 'j outbound_call = Get str | Post str 'j

record 'j env =
  eido_agent_url :: str
  json_loads :: "bytes \<Rightarrow> py_exception + 'j"
  send :: "'j outbound_call \<Rightarrow> py_exception + response"

text \<open>
  The state of the process: the module-level set, and the outbound calls issued so far
  (a log kept by the model, so that "no outbound call" can be said).
\<close>

record 'j world =
  claimed_incidents :: "str fset"
  sent :: "'j outbound_call list"

definition startup :: "'j world" where
  "startup = \<lparr>claimed_incidents = {||}, sent = []\<rparr>"

subsection \<open>\<^verbatim>\<open>httpx\<close> methods used by the handlers\<close>

text \<open>
  \<^verbatim>\<open>Response.raise_for_status()\<close> returns when \<^verbatim>\<open>is_success\<close>
  (a 2xx code) and raises \<^verbatim>\<open>HTTPStatusError\<close> carrying the response otherwise.
\<close>

definition is_success :: "response \<Rightarrow> bool" where
  "is_success r \<longleftrightarrow> 200 \<le> status_code r \<and> status_code r \<le> 299"

definition raise_for_status :: "response \<Rightarrow> py_exception + response" where
  "raise_for_status r = (if is_success r then Inr r else Inl (HTTPStatusError r))"

definition response_json :: "'j env \<Rightarrow> response \<Rightarrow> py_exception + 'j" where
  "response_json e r = json_loads e (content r)"

subsection \<open>List Incidents\<close>

text \<open>The body of the \<^verbatim>\<open>try\<close> block: get, raise\_for\_status, json.\<close>

definition get_incidents_try :: "'j env \<Rightarrow> py_exception + 'j" where
  "get_incidents_try e =
     (case send e (Get (eido_agent_url e @ ''/api/v1/incidents'')) of
        Inl x \<Rightarrow> Inl x
      | Inr r \<Rightarrow>
          (case raise_for_status r of
             Inl x \<Rightarrow> Inl x
           | Inr r' \<Rightarrow> response_json e r'))"

text \<open>
  The \<^verbatim>\<open>except\<close> clauses of \<^verbatim>\<open>get_incidents\<close>. The last one,
  \<^verbatim>\<open>except Exception\<close>, takes every exception the first two left that is an
  \<^verbatim>\<open>Exception\<close>, a \<^verbatim>\<open>JSONDecodeError\<close> of \<^verbatim>\<open>response.json()\<close>
  among them; what is not an \<^verbatim>\<open>Exception\<close> leaves the handler.
\<close>

fun get_incidents_except :: "py_exception \<Rightarrow> failure" where
  "get_incidents_except (HTTPStatusError r) =
     HTTPException (status_code r) (''Error from EIDO Agent: '' @ resp_text r)"
| "get_incidents_except (RequestError k m) =
     HTTPException 502 (''Error connecting to EIDO Agent: '' @ m)"
| "get_incidents_except (JSONDecodeError m) =
     HTTPException 500 (''An unexpected error occurred while fetching incidents: '' @ m)"
| "get_incidents_except (OtherException c m) =
     HTTPException 500 (''An unexpected error occurred while fetching incidents: '' @ m)"
| "get_incidents_except (BaseExceptionOnly c) = Unhandled (BaseExceptionOnly c)"

definition get_incidents :: "'j env \<Rightarrow> 'j world \<Rightarrow> (failure + 'j) \<times> 'j world" where
  "get_incidents e w =
     (let w' = w\<lparr>sent := sent w @ [Get (eido_agent_url e @ ''/api/v1/incidents'')]\<rparr>
      in (case get_incidents_try e of
            Inl x \<Rightarrow> (Inl (get_incidents_except x), w')
          | Inr v \<Rightarrow> (Inr v, w')))"

subsection \<open>Claim Incident and List Claimed Incidents\<close>

definition claim_incident :: "str \<Rightarrow> 'j world \<Rightarrow> (failure + py_dict) \<times> 'j world" where
  "claim_incident incident_id w =
     (Inr [(''message'', PyStr (''Incident '' @ incident_id @ '' claimed.''))],
      w\<lparr>claimed_incidents := finsert incident_id (claimed_incidents w)\<rparr>)"

text \<open>
  \<^verbatim>\<open>list(claimed_incidents)\<close> iterates a hash set: each member once, in an
  order the language does not fix. The model therefore says which lists the call may
  return, and the set is left as it was.
\<close>

definition get_claimed_incidents :: "'j world \<Rightarrow> str list \<Rightarrow> bool" where
  "get_claimed_incidents w ys \<longleftrightarrow> distinct ys \<and> fset_of_list ys = claimed_incidents w"

subsection \<open>Upload EIDO File\<close>

text \<open>
  The \<^verbatim>\<open>UploadFile\<close>: its name, its declared content type (which the handler
  never reads) and the bytes \<^verbatim>\<open>await file.read()\<close> returns.
\<close>

record upload_file =
  filename :: str
  content_type :: str
  file_bytes :: bytes

text \<open>\<^verbatim>\<open>str.endswith\<close>: the last \<open>length t\<close> characters of \<open>s\<close> are \<open>t\<close>.\<close>

definition endswith :: "str \<Rightarrow> str \<Rightarrow> bool" where
  "endswith s t \<longleftrightarrow> length t \<le> length s \<and> drop (length s - length t) s = t"

text \<open>
  The first \<^verbatim>\<open>try\<close> has the single clause
  \<^verbatim>\<open>except json.JSONDecodeError\<close>; any other exception of
  \<^verbatim>\<open>json.loads\<close> leaves the handler.
\<close>

fun upload_eido_loads_except :: "py_exception \<Rightarrow> failure" where
  "upload_eido_loads_except (JSONDecodeError m) =
     HTTPException 400 ''Invalid JSON format in uploaded file.''"
| "upload_eido_loads_except x = Unhandled x"

definition upload_eido_try :: "'j env \<Rightarrow> 'j \<Rightarrow> py_exception + 'j" where
  "upload_eido_try e eido_data =
     (case send e (Post (eido_agent_url e @ ''/api/v1/ingest'') eido_data) of
        Inl x \<Rightarrow> Inl x
      | Inr r \<Rightarrow>
          (case raise_for_status r of
             Inl x \<Rightarrow> Inl x
           | Inr r' \<Rightarrow> response_json e r'))"

fun upload_eido_except :: "py_exception \<Rightarrow> failure" where
  "upload_eido_except (HTTPStatusError r) =
     HTTPException (status_code r) (''Error from EIDO Agent: '' @ resp_text r)"
| "upload_eido_except (RequestError k m) =
     HTTPException 502 (''Could not connect to EIDO Agent: '' @ m)"
| "upload_eido_except (JSONDecodeError m) =
     HTTPException 502 ''Received an invalid response from the EIDO Agent.''"
| "upload_eido_except (OtherException c m) =
     HTTPException 500 (''An unexpected error occurred: '' @ m)"
| "upload_eido_except (BaseExceptionOnly c) = Unhandled (BaseExceptionOnly c)"

definition upload_eido :: "'j env \<Rightarrow> upload_file \<Rightarrow> 'j world \<Rightarrow> (failure + 'j) \<times> 'j world" where
  "upload_eido e file w =
     (if \<not> endswith (filename file) ''.json''
      then (Inl (HTTPException 400 ''Invalid file type. Only .json files are accepted.''), w)
      else
        (case json_loads e (file_bytes file) of
           Inl x \<Rightarrow> (Inl (upload_eido_loads_except x), w)
         | Inr eido_data \<Rightarrow>
             (let w' = w\<lparr>sent := sent w @ [Post (eido_agent_url e @ ''/api/v1/ingest'') eido_data]\<rparr>
              in (case upload_eido_try e eido_data of
                    Inl x \<Rightarrow> (Inl (upload_eido_except x), w')
                  | Inr v \<Rightarrow> (Inr v, w')))))"

subsection \<open>Correlate Incident\<close>

text \<open>
  The handler never reads \<^verbatim>\<open>request\<close>; the class
  \<^verbatim>\<open>CorrelationRequest\<close> is declared in \<^verbatim>\<open>models/schemas.py\<close>, so the
  type of the payload is the type variable \<open>'q\<close>.
\<close>

definition correlate_incident :: "'q \<Rightarrow> 'j world \<Rightarrow> (failure + py_dict) \<times> 'j world" where
  "correlate_incident request w =
     (Inr [(''status'', PyStr ''new''), (''correlation_id'', PyNone)], w)"

text \<open>
  Modelled from the spec: the request model \<^verbatim>\<open>CorrelationRequest\<close> of
  \<^verbatim>\<open>models/schemas.py\<close>, a file that is not among the sources. The framework
  validates the body of the request against this class before it calls the handler. The
  spec gives the request as "a request payload of unspecified/unvalidated shape", one
  that is "accepted but never inspected": the validation accepts every payload and hands
  it on as it is.
\<close>

definition correlation_request :: "'p \<Rightarrow> failure + 'p" where
  "correlation_request payload = Inr payload"

text \<open>
  Modelled from the spec: the response model \<^verbatim>\<open>CorrelationResponse\<close> of
  \<^verbatim>\<open>models/schemas.py\<close>, a file that is not among the sources. The spec gives
  the response as \<^verbatim>\<open>{status, correlation_id}\<close>: the response model keeps the
  entries of the handler's dict under these two keys.
\<close>

definition correlation_response :: "py_dict \<Rightarrow> py_dict" where
  "correlation_response d = filter (\<lambda>(k, v). k = ''status'' \<or> k = ''correlation_id'') d"

text \<open>
  The route \<^verbatim>\<open>POST /incidents/correlate\<close>: the body is validated by
  \<open>validate\<close>; when it is refused the handler does not run; otherwise the handler runs
  on the validated request and its dict goes through the response model.
\<close>

definition correlate_route ::
  "('p \<Rightarrow> failure + 'q) \<Rightarrow> 'p \<Rightarrow> 'j world \<Rightarrow> (failure + py_dict) \<times> 'j world" where
  "correlate_route validate payload w =
     (case validate payload of
        Inl x \<Rightarrow> (Inl x, w)
      | Inr request \<Rightarrow>
          (case correlate_incident request w of
             (Inl x, w') \<Rightarrow> (Inl x, w')
           | (Inr d, w') \<Rightarrow> (Inr (correlation_response d), w')))"

subsection \<open>The router\<close>

text \<open>
  One request is served by one handler. \<open>serve e req w (res, w')\<close>: in the state
  \<open>w\<close> the request \<open>req\<close> may end with \<open>res\<close> and leave the state \<open>w'\<close>.
\<close>

datatype 'q api_request =
    GET_incidents
  | POST_claim str
  | GET_claimed
  | POST_upload upload_file
  | POST_correlate 'q

datatype 'j reply = Json 'j | Dict py_dict | Strs "str list"

inductive serve ::
  "'j env \<Rightarrow> 'q api_request \<Rightarrow> 'j world \<Rightarrow> (failure + 'j reply) \<times> 'j world \<Rightarrow> bool"
  for e :: "'j env" where
  serve_incidents:
    "get_incidents e w = (res, w') \<Longrightarrow> serve e GET_incidents w (map_sum id Json res, w')"
| serve_claim:
    "claim_incident incident_id w = (res, w') \<Longrightarrow>
     serve e (POST_claim incident_id) w (map_sum id Dict res, w')"
| serve_claimed:
    "get_claimed_incidents w ys \<Longrightarrow> serve e GET_claimed w (Inr (Strs ys), w)"
| serve_upload:
    "upload_eido e file w = (res, w') \<Longrightarrow> serve e (POST_upload file) w (map_sum id Json res, w')"
| serve_correlate:
    "correlate_incident request w = (res, w') \<Longrightarrow>
     serve e (POST_correlate request) w (map_sum id Dict res, w')"

subsection \<open>Test doubles\<close>

text \<open>
  Concrete environments for the examples. \<open>loads_fixture\<close> records what CPython's
  \<^verbatim>\<open>json.loads\<close> answers on the byte strings the examples use:
  \<^verbatim>\<open>b'{"a":1}'\<close> is the dict \<^verbatim>\<open>{'a': 1}\<close>; the single byte
  \<^verbatim>\<open>b'\x80'\<close> is no UTF-8, and decoding it raises
  \<^verbatim>\<open>UnicodeDecodeError\<close> before any JSON is scanned; the other examples
  (\<^verbatim>\<open>b'not valid json{'\<close>, \<^verbatim>\<open>b'server error'\<close>,
  \<^verbatim>\<open>b'<html>'\<close>) are text that starts with no JSON value, which is the
  fixture's answer everywhere else.
\<close>

definition loads_fixture :: "bytes \<Rightarrow> py_exception + py_value" where
  \<open>loads_fixture b =
     (if b = ''{"a":1}'' then Inr (PyDict [(''a'', PyInt 1)])
      else if b = [CHR 0x80] then
        Inl (OtherException ''UnicodeDecodeError''
               '''utf-8' codec can't decode byte 0x80 in position 0: invalid start byte'')
      else Inl (JSONDecodeError ''Expecting value: line 1 column 1 (char 0)''))\<close>

text \<open>An Agent that answers every call with \<open>r\<close>, and one that cannot be reached.\<close>

definition agent_answers :: "response \<Rightarrow> py_value env" where
  "agent_answers r =
     \<lparr>eido_agent_url = ''http://eido-agent:8000'', json_loads = loads_fixture,
      send = (\<lambda>c. Inr r)\<rparr>"

definition agent_unreachable :: "request_error \<Rightarrow> py_value env" where
  "agent_unreachable k =
     \<lparr>eido_agent_url = ''http://eido-agent:8000'', json_loads = loads_fixture,
      send = (\<lambda>c. Inl (RequestError k ''All connection attempts failed''))\<rparr>"

definition http_response :: "int \<Rightarrow> string \<Rightarrow> response" where
  "http_response code b = \<lparr>status_code = code, resp_text = b, content = b\<rparr>"

definition upload :: "str \<Rightarrow> bytes \<Rightarrow> upload_file" where
  "upload name b = \<lparr>filename = name, content_type = ''application/octet-stream'', file_bytes = b\<rparr>"

text \<open>
  A 200 response whose body is the single byte \<^verbatim>\<open>0x80\<close>; its
  \<^verbatim>\<open>text\<close> is the replacement character U+FFFD (here in UTF-8).
\<close>

definition undecodable_response :: response where
  "undecodable_response =
     \<lparr>status_code = 200, resp_text = [CHR 0xEF, CHR 0xBF, CHR 0xBD], content = [CHR 0x80]\<rparr>"

definition a1_json :: upload_file where
  \<open>a1_json = upload ''data.json'' ''{"a":1}''\<close>

definition a1_txt :: upload_file where
  \<open>a1_txt = upload ''data.txt'' ''{"a":1}''\<close>

section \<open>Properties\<close>

lemmas handler_defs =
  get_incidents_def get_incidents_try_def upload_eido_def upload_eido_try_def
  raise_for_status_def response_json_def

subsection \<open>The claimed set\<close>

lemma listing_exists: "\<exists>ys. get_claimed_incidents w ys"
proof -
  have "finite (fset (claimed_incidents w))" by (rule finite_fset)
  then have "\<exists>ys. set ys = fset (claimed_incidents w) \<and> distinct ys"
    by (rule finite_distinct_list)
  then obtain ys where ys: "set ys = fset (claimed_incidents w)" and d: "distinct ys"
    by (elim exE conjE)
  from ys have "fset (fset_of_list ys) = fset (claimed_incidents w)"
    by (simp only: fset_of_list.rep_eq)
  then have "fset_of_list ys = claimed_incidents w"
    by (simp only: fset_inject)
  with d have "get_claimed_incidents w ys"
    by (simp only: get_claimed_incidents_def simp_thms)
  then show ?thesis by (rule exI)
qed

lemma listing_members:
  assumes "get_claimed_incidents w ys"
  shows "set ys = fset (claimed_incidents w)"
proof -
  from assms have "fset_of_list ys = claimed_incidents w"
    by (simp only: get_claimed_incidents_def)
  then have "fset (fset_of_list ys) = fset (claimed_incidents w)"
    by (rule arg_cong)
  then show ?thesis by (simp only: fset_of_list.rep_eq)
qed

lemma listing_distinct: "get_claimed_incidents w ys \<Longrightarrow> distinct ys"
  by (simp only: get_claimed_incidents_def)

lemma claimed_after_claim:
  "claimed_incidents (snd (claim_incident x w)) = finsert x (claimed_incidents w)"
  by (simp add: claim_incident_def)

lemma listed_after_claim:
  assumes "get_claimed_incidents (snd (claim_incident x w)) ys"
  shows "x \<in> set ys"
proof -
  from assms have "set ys = fset (claimed_incidents (snd (claim_incident x w)))"
    by (rule listing_members)
  then have "set ys = insert x (fset (claimed_incidents w))"
    by (simp only: claimed_after_claim finsert.rep_eq)
  then show ?thesis by simp
qed

lemma count_list_distinct: "distinct ys \<Longrightarrow> x \<in> set ys \<Longrightarrow> count_list ys x = 1"
  by (induction ys) auto

lemma singleton_listing:
  "get_claimed_incidents \<lparr>claimed_incidents = {|x|}, sent = cs\<rparr> [x]"
  by (simp add: get_claimed_incidents_def)

text \<open>
  Claim C1. For every identifier \<open>x\<close> and every state, after \<open>claim_incident x\<close> the
  listing of the claimed incidents returns (there is a list it may return) and every
  list it may return contains \<open>x\<close>.
\<close>

theorem claim_then_list_contains:
  "(\<exists>ys. get_claimed_incidents (snd (claim_incident x w)) ys) \<and>
   (\<forall>ys. get_claimed_incidents (snd (claim_incident x w)) ys \<longrightarrow> x \<in> set ys)"
proof (intro conjI allI impI)
  show "\<exists>ys. get_claimed_incidents (snd (claim_incident x w)) ys"
    by (rule listing_exists)
next
  fix ys
  assume "get_claimed_incidents (snd (claim_incident x w)) ys"
  then show "x \<in> set ys" by (rule listed_after_claim)
qed

theorem claim_then_list_contains_witness:
  "get_claimed_incidents (snd (claim_incident ''INC-1'' (startup :: unit world))) [''INC-1''] \<and>
   ''INC-1'' \<in> set [''INC-1'']"
proof -
  have h: "get_claimed_incidents (snd (claim_incident ''INC-1'' (startup :: unit world))) [''INC-1'']"
    by (simp add: claim_incident_def startup_def singleton_listing)
  from claim_then_list_contains [of "''INC-1''" "startup :: unit world"]
  have "get_claimed_incidents (snd (claim_incident ''INC-1'' (startup :: unit world))) [''INC-1'']
          \<longrightarrow> ''INC-1'' \<in> set [''INC-1'']"
    by (elim conjE allE)
  then have "''INC-1'' \<in> set [''INC-1'']"
    using h by (rule mp)
  with h show ?thesis by (rule conjI)
qed

text \<open>
  Claim C8. Claiming \<open>x\<close> a second time returns the same message and leaves the same
  state as claiming it once, and every list the listing may then return holds \<open>x\<close>
  exactly once.
\<close>

theorem claim_incident_idempotent:
  "claim_incident x (snd (claim_incident x w)) = claim_incident x w \<and>
   (\<forall>ys. get_claimed_incidents (snd (claim_incident x (snd (claim_incident x w)))) ys
      \<longrightarrow> count_list ys x = 1)"
proof (intro conjI allI impI)
  show "claim_incident x (snd (claim_incident x w)) = claim_incident x w"
    by (simp add: claim_incident_def)
next
  fix ys
  assume l: "get_claimed_incidents (snd (claim_incident x (snd (claim_incident x w)))) ys"
  then have "distinct ys" by (rule listing_distinct)
  moreover from l have "x \<in> set ys" by (rule listed_after_claim)
  ultimately show "count_list ys x = 1"
    by (rule count_list_distinct)
qed

theorem claim_incident_idempotent_witness:
  "get_claimed_incidents
     (snd (claim_incident ''INC-1'' (snd (claim_incident ''INC-1'' (startup :: unit world)))))
     [''INC-1''] \<and>
   count_list [''INC-1''] ''INC-1'' = 1"
proof -
  have h: "get_claimed_incidents
     (snd (claim_incident ''INC-1'' (snd (claim_incident ''INC-1'' (startup :: unit world)))))
     [''INC-1'']"
    by (simp add: claim_incident_def startup_def singleton_listing)
  from claim_incident_idempotent [of "''INC-1''" "startup :: unit world"]
  have "get_claimed_incidents
          (snd (claim_incident ''INC-1'' (snd (claim_incident ''INC-1'' (startup :: unit world)))))
          [''INC-1'']
        \<longrightarrow> count_list [''INC-1''] ''INC-1'' = 1"
    by (elim conjE allE)
  then have "count_list [''INC-1''] ''INC-1'' = 1"
    using h by (rule mp)
  with h show ?thesis by (rule conjI)
qed

subsection \<open>Upload: the checks on the file\<close>

text \<open>
  Claim C2. A file whose name does not end with \<open>.json\<close> is refused with
  \<open>HTTPException 400\<close> and the invalid-file-type message, whatever its bytes, its
  declared content type, the environment and the state; the state, and with it the log of
  outbound calls, is as before.
\<close>

theorem upload_eido_invalid_file_type:
  "\<not> endswith (filename file) ''.json'' \<Longrightarrow>
   upload_eido e file w =
     (Inl (HTTPException 400 ''Invalid file type. Only .json files are accepted.''), w)"
  by (simp add: upload_eido_def)

theorem upload_eido_invalid_file_type_witness:
  "\<not> endswith (filename a1_txt) ''.json'' \<and>
   upload_eido (agent_answers (http_response 200 ''ok'')) a1_txt startup =
     (Inl (HTTPException 400 ''Invalid file type. Only .json files are accepted.''), startup)"
proof -
  have h: "\<not> endswith (filename a1_txt) ''.json''"
    by (simp add: a1_txt_def upload_def endswith_def)
  from h upload_eido_invalid_file_type [OF h, of "agent_answers (http_response 200 ''ok'')" startup]
  show ?thesis by (rule conjI)
qed

text \<open>The comparison is by characters: an upper-case suffix is not \<open>.json\<close>.\<close>

lemma endswith_case_sensitive: "\<not> endswith ''DATA.JSON'' ''.json''"
  by (simp add: endswith_def)

text \<open>
  When \<^verbatim>\<open>json.loads\<close> raises \<^verbatim>\<open>JSONDecodeError\<close> on the bytes of the
  file, the handler answers 400 and nothing is sent; so it is for the file
  \<^verbatim>\<open>data.json\<close> with the bytes \<^verbatim>\<open>not valid json{\<close>.
\<close>

lemma upload_eido_json_decode_error:
  "endswith (filename file) ''.json'' \<Longrightarrow>
   json_loads e (file_bytes file) = Inl (JSONDecodeError m) \<Longrightarrow>
   upload_eido e file w = (Inl (HTTPException 400 ''Invalid JSON format in uploaded file.''), w)"
  by (simp add: upload_eido_def)

lemma not_valid_json_example:
  "upload_eido (agent_answers (http_response 200 ''ok''))
     (upload ''data.json'' ''not valid json{'') startup =
     (Inl (HTTPException 400 ''Invalid JSON format in uploaded file.''), startup)"
  by (simp add: upload_eido_def agent_answers_def upload_def endswith_def loads_fixture_def)

text \<open>
  Claim C3 says that every \<open>.json\<close> file whose body is not valid JSON is answered with
  400. The handler catches \<^verbatim>\<open>json.JSONDecodeError\<close> only. Bytes that are not
  UTF-8 are not valid JSON either, and on them \<^verbatim>\<open>json.loads\<close> raises
  \<^verbatim>\<open>UnicodeDecodeError\<close>, a sibling of \<^verbatim>\<open>JSONDecodeError\<close> under
  \<^verbatim>\<open>ValueError\<close>: whenever \<^verbatim>\<open>json.loads\<close> raises an exception of
  another class, that exception leaves the handler uncaught, and there is no
  \<open>HTTPException 400\<close>. Nothing is sent in this case either.
\<close>

theorem upload_eido_undecodable_body:
  "endswith (filename file) ''.json'' \<Longrightarrow>
   json_loads e (file_bytes file) = Inl (OtherException c m) \<Longrightarrow>
   upload_eido e file w = (Inl (Unhandled (OtherException c m)), w)"
  by (simp add: upload_eido_def)

theorem upload_eido_undecodable_body_witness:
  "endswith (filename (upload ''data.json'' [CHR 0x80])) ''.json'' \<and>
   json_loads (agent_answers (http_response 200 ''ok''))
     (file_bytes (upload ''data.json'' [CHR 0x80])) =
     Inl (OtherException ''UnicodeDecodeError''
        '''utf-8' codec can't decode byte 0x80 in position 0: invalid start byte'') \<and>
   upload_eido (agent_answers (http_response 200 ''ok'')) (upload ''data.json'' [CHR 0x80]) startup =
     (Inl (Unhandled (OtherException ''UnicodeDecodeError''
        '''utf-8' codec can't decode byte 0x80 in position 0: invalid start byte'')), startup)"
proof -
  let ?e = "agent_answers (http_response 200 ''ok'')"
  let ?f = "upload ''data.json'' [CHR 0x80]"
  have h1: "endswith (filename ?f) ''.json''"
    by (simp add: upload_def endswith_def)
  have h2: "json_loads ?e (file_bytes ?f) = Inl (OtherException ''UnicodeDecodeError''
        '''utf-8' codec can't decode byte 0x80 in position 0: invalid start byte'')"
    by (simp add: agent_answers_def upload_def loads_fixture_def)
  from h1 h2 upload_eido_undecodable_body [OF h1 h2, of startup]
  show ?thesis by (intro conjI)
qed

subsection \<open>The proxied calls\<close>

text \<open>What each handler does once the client has returned a response or raised.\<close>

lemma get_incidents_response:
  "send e (Get (eido_agent_url e @ ''/api/v1/incidents'')) = Inr r \<Longrightarrow>
   fst (get_incidents e w) =
     (if is_success r
      then (case json_loads e (content r) of
              Inl x \<Rightarrow> Inl (get_incidents_except x) | Inr v \<Rightarrow> Inr v)
      else Inl (get_incidents_except (HTTPStatusError r)))"
  by (simp add: handler_defs Let_def split: sum.splits)

lemma get_incidents_raises:
  "send e (Get (eido_agent_url e @ ''/api/v1/incidents'')) = Inl x \<Longrightarrow>
   fst (get_incidents e w) = Inl (get_incidents_except x)"
  by (simp add: handler_defs Let_def)

lemma upload_eido_response:
  "endswith (filename file) ''.json'' \<Longrightarrow> json_loads e (file_bytes file) = Inr d \<Longrightarrow>
   send e (Post (eido_agent_url e @ ''/api/v1/ingest'') d) = Inr r \<Longrightarrow>
   fst (upload_eido e file w) =
     (if is_success r
      then (case json_loads e (content r) of
              Inl x \<Rightarrow> Inl (upload_eido_except x) | Inr v \<Rightarrow> Inr v)
      else Inl (upload_eido_except (HTTPStatusError r)))"
  by (simp add: handler_defs Let_def split: sum.splits)

lemma upload_eido_raises:
  "endswith (filename file) ''.json'' \<Longrightarrow> json_loads e (file_bytes file) = Inr d \<Longrightarrow>
   send e (Post (eido_agent_url e @ ''/api/v1/ingest'') d) = Inl x \<Longrightarrow>
   fst (upload_eido e file w) = Inl (upload_eido_except x)"
  by (simp add: handler_defs Let_def)

lemma a1_json_accepted: "endswith (filename a1_json) ''.json''"
  by (simp add: a1_json_def upload_def endswith_def)

lemma a1_json_loads:
  "json_loads (agent_answers r) (file_bytes a1_json) = Inr (PyDict [(''a'', PyInt 1)])"
  "json_loads (agent_unreachable k) (file_bytes a1_json) = Inr (PyDict [(''a'', PyInt 1)])"
  by (simp_all add: a1_json_def upload_def agent_answers_def agent_unreachable_def
      loads_fixture_def)

lemma fixture_send:
  "send (agent_answers r) c = Inr r"
  "send (agent_unreachable k) c = Inl (RequestError k ''All connection attempts failed'')"
  by (simp_all add: agent_answers_def agent_unreachable_def)

text \<open>
  Claim C4. In both proxied handlers, when the Agent answers with a status that is not a
  2xx one, the handler raises \<open>HTTPException\<close> with that same status code and a detail
  that is a fixed prefix followed by the text of the Agent's body.
\<close>

theorem upstream_error_passthrough:
  "(send e (Get (eido_agent_url e @ ''/api/v1/incidents'')) = Inr r \<and> \<not> is_success r \<longrightarrow>
      fst (get_incidents e w) =
        Inl (HTTPException (status_code r) (''Error from EIDO Agent: '' @ resp_text r))) \<and>
   (endswith (filename file) ''.json'' \<and> json_loads e (file_bytes file) = Inr d \<and>
    send e (Post (eido_agent_url e @ ''/api/v1/ingest'') d) = Inr r \<and> \<not> is_success r \<longrightarrow>
      fst (upload_eido e file w) =
        Inl (HTTPException (status_code r) (''Error from EIDO Agent: '' @ resp_text r)))"
  by (simp add: get_incidents_response upload_eido_response)

theorem upstream_error_passthrough_witness:
  "send (agent_answers (http_response 500 ''server error''))
     (Get (eido_agent_url (agent_answers (http_response 500 ''server error'')) @ ''/api/v1/incidents''))
     = Inr (http_response 500 ''server error'') \<and>
   \<not> is_success (http_response 500 ''server error'') \<and>
   endswith (filename a1_json) ''.json'' \<and>
   json_loads (agent_answers (http_response 500 ''server error'')) (file_bytes a1_json)
     = Inr (PyDict [(''a'', PyInt 1)]) \<and>
   send (agent_answers (http_response 500 ''server error''))
     (Post (eido_agent_url (agent_answers (http_response 500 ''server error'')) @ ''/api/v1/ingest'')
        (PyDict [(''a'', PyInt 1)]))
     = Inr (http_response 500 ''server error'') \<and>
   fst (get_incidents (agent_answers (http_response 500 ''server error'')) startup) =
     Inl (HTTPException 500 ''Error from EIDO Agent: server error'') \<and>
   fst (upload_eido (agent_answers (http_response 500 ''server error'')) a1_json startup) =
     Inl (HTTPException 500 ''Error from EIDO Agent: server error'')"
proof -
  let ?r = "http_response 500 ''server error''"
  let ?e = "agent_answers ?r"
  let ?d = "PyDict [(''a'', PyInt 1)]"
  have g: "send ?e (Get (eido_agent_url ?e @ ''/api/v1/incidents'')) = Inr ?r"
    by (rule fixture_send)
  have p: "send ?e (Post (eido_agent_url ?e @ ''/api/v1/ingest'') ?d) = Inr ?r"
    by (rule fixture_send)
  have n: "\<not> is_success ?r"
    by (simp add: is_success_def http_response_def)
  have l: "json_loads ?e (file_bytes a1_json) = Inr ?d"
    by (rule a1_json_loads)
  have v: "status_code ?r = 500" "resp_text ?r = ''server error''"
    by (simp_all add: http_response_def)
  from upstream_error_passthrough [of ?e ?r startup a1_json ?d]
    g p n l a1_json_accepted
  show ?thesis by (simp add: v)
qed

text \<open>
  Claim C5. In both proxied handlers, when the client raises a
  \<^verbatim>\<open>httpx.RequestError\<close> of any subclass \<open>k\<close> with any message, the handler
  raises \<open>HTTPException\<close> with the fixed status 502; the subclass does not show in the
  result.
\<close>

theorem request_error_is_bad_gateway:
  "(send e (Get (eido_agent_url e @ ''/api/v1/incidents'')) = Inl (RequestError k m) \<longrightarrow>
      fst (get_incidents e w) =
        Inl (HTTPException 502 (''Error connecting to EIDO Agent: '' @ m))) \<and>
   (endswith (filename file) ''.json'' \<and> json_loads e (file_bytes file) = Inr d \<and>
    send e (Post (eido_agent_url e @ ''/api/v1/ingest'') d) = Inl (RequestError k m) \<longrightarrow>
      fst (upload_eido e file w) =
        Inl (HTTPException 502 (''Could not connect to EIDO Agent: '' @ m)))"
  by (simp add: get_incidents_raises upload_eido_raises)

theorem request_error_is_bad_gateway_witness:
  "send (agent_unreachable ConnectError)
     (Get (eido_agent_url (agent_unreachable ConnectError) @ ''/api/v1/incidents''))
     = Inl (RequestError ConnectError ''All connection attempts failed'') \<and>
   endswith (filename a1_json) ''.json'' \<and>
   json_loads (agent_unreachable ConnectError) (file_bytes a1_json)
     = Inr (PyDict [(''a'', PyInt 1)]) \<and>
   send (agent_unreachable ConnectError)
     (Post (eido_agent_url (agent_unreachable ConnectError) @ ''/api/v1/ingest'')
        (PyDict [(''a'', PyInt 1)]))
     = Inl (RequestError ConnectError ''All connection attempts failed'') \<and>
   fst (get_incidents (agent_unreachable ConnectError) startup) =
     Inl (HTTPException 502 ''Error connecting to EIDO Agent: All connection attempts failed'') \<and>
   fst (upload_eido (agent_unreachable ConnectError) a1_json startup) =
     Inl (HTTPException 502 ''Could not connect to EIDO Agent: All connection attempts failed'')"
proof -
  let ?e = "agent_unreachable ConnectError"
  let ?d = "PyDict [(''a'', PyInt 1)]"
  let ?m = "''All connection attempts failed''"
  have g: "send ?e (Get (eido_agent_url ?e @ ''/api/v1/incidents'')) = Inl (RequestError ConnectError ?m)"
    by (rule fixture_send)
  have p: "send ?e (Post (eido_agent_url ?e @ ''/api/v1/ingest'') ?d) = Inl (RequestError ConnectError ?m)"
    by (rule fixture_send)
  have l: "json_loads ?e (file_bytes a1_json) = Inr ?d"
    by (rule a1_json_loads)
  from request_error_is_bad_gateway [of ?e ConnectError ?m startup a1_json ?d]
    g p l a1_json_accepted
  show ?thesis by simp
qed

text \<open>
  When \<^verbatim>\<open>response.json()\<close> raises \<^verbatim>\<open>JSONDecodeError\<close> on a 2xx
  response, the upload handler answers 502, with a detail other than that of the 400 for
  a file that does not parse.
\<close>

lemma upload_eido_invalid_response:
  "endswith (filename file) ''.json'' \<Longrightarrow> json_loads e (file_bytes file) = Inr d \<Longrightarrow>
   send e (Post (eido_agent_url e @ ''/api/v1/ingest'') d) = Inr r \<Longrightarrow> is_success r \<Longrightarrow>
   json_loads e (content r) = Inl (JSONDecodeError m) \<Longrightarrow>
   fst (upload_eido e file w) =
     Inl (HTTPException 502 ''Received an invalid response from the EIDO Agent.'')"
  by (simp add: upload_eido_response)

text \<open>
  Claim C6 says that every 2xx response whose body is not valid JSON is answered with
  502. The clause is \<^verbatim>\<open>except json.JSONDecodeError\<close>, under the comment that
  the Agent "returned a success status but the response body was not valid JSON". A body
  that is not UTF-8 is not valid JSON, and on it \<^verbatim>\<open>response.json()\<close> raises
  \<^verbatim>\<open>UnicodeDecodeError\<close>, which only the last clause,
  \<^verbatim>\<open>except Exception\<close>, takes: the answer is 500, not 502.
\<close>

theorem upload_eido_undecodable_response:
  "endswith (filename file) ''.json'' \<Longrightarrow> json_loads e (file_bytes file) = Inr d \<Longrightarrow>
   send e (Post (eido_agent_url e @ ''/api/v1/ingest'') d) = Inr r \<Longrightarrow> is_success r \<Longrightarrow>
   json_loads e (content r) = Inl (OtherException c m) \<Longrightarrow>
   fst (upload_eido e file w) = Inl (HTTPException 500 (''An unexpected error occurred: '' @ m))"
  by (simp add: upload_eido_response)

theorem upload_eido_undecodable_response_witness:
  "endswith (filename a1_json) ''.json'' \<and>
   json_loads (agent_answers undecodable_response) (file_bytes a1_json)
     = Inr (PyDict [(''a'', PyInt 1)]) \<and>
   send (agent_answers undecodable_response)
     (Post (eido_agent_url (agent_answers undecodable_response) @ ''/api/v1/ingest'')
        (PyDict [(''a'', PyInt 1)]))
     = Inr undecodable_response \<and>
   is_success undecodable_response \<and>
   json_loads (agent_answers undecodable_response) (content undecodable_response) =
     Inl (OtherException ''UnicodeDecodeError''
        '''utf-8' codec can't decode byte 0x80 in position 0: invalid start byte'') \<and>
   fst (upload_eido (agent_answers undecodable_response) a1_json startup) =
     Inl (HTTPException 500
        ''An unexpected error occurred: 'utf-8' codec can't decode byte 0x80 in position 0: invalid start byte'')"
proof -
  let ?e = "agent_answers undecodable_response"
  let ?d = "PyDict [(''a'', PyInt 1)]"
  have l: "json_loads ?e (file_bytes a1_json) = Inr ?d"
    by (rule a1_json_loads)
  have p: "send ?e (Post (eido_agent_url ?e @ ''/api/v1/ingest'') ?d) = Inr undecodable_response"
    by (rule fixture_send)
  have s: "is_success undecodable_response"
    by (simp add: is_success_def undecodable_response_def)
  have j: "json_loads ?e (content undecodable_response) =
     Inl (OtherException ''UnicodeDecodeError''
        '''utf-8' codec can't decode byte 0x80 in position 0: invalid start byte'')"
    by (simp add: agent_answers_def undecodable_response_def loads_fixture_def)
  from upload_eido_undecodable_response [OF a1_json_accepted l p s j, of startup]
    a1_json_accepted l p s j
  show ?thesis by simp
qed




subsection \<open>The constant of Correlate Incident\<close>

lemma correlate_incident_result:
  "correlate_incident request w =
     (Inr [(''status'', PyStr ''new''), (''correlation_id'', PyNone)], w)"
  by (simp add: correlate_incident_def)

lemma correlation_response_constant:
  "correlation_response [(''status'', PyStr ''new''), (''correlation_id'', PyNone)] =
     [(''status'', PyStr ''new''), (''correlation_id'', PyNone)]"
  by (simp add: correlation_response_def)

text \<open>
  Claim C7. On the route of Correlate Incident, whatever the validation of the body is,
  every payload it accepts is answered with the dict
  \<^verbatim>\<open>{"status": "new", "correlation_id": None}\<close> and the state is left as it
  was, and a payload it refuses never reaches the handler. With the request model of the
  spec, which accepts every payload, this is the answer to every payload, the empty dict
  included.
\<close>

theorem correlate_incident_constant:
  "(validate payload = Inr request \<longrightarrow>
      correlate_route validate payload w =
        (Inr [(''status'', PyStr ''new''), (''correlation_id'', PyNone)], w)) \<and>
   (validate payload = Inl x \<longrightarrow> correlate_route validate payload w = (Inl x, w)) \<and>
   correlate_route correlation_request payload w =
     (Inr [(''status'', PyStr ''new''), (''correlation_id'', PyNone)], w)"
  by (simp add: correlate_route_def correlation_request_def correlate_incident_result
      correlation_response_constant)

text \<open>
  The witness: the request model of the spec on the empty dict, and a validation that
  refuses the empty dict and so keeps it from the handler.
\<close>

theorem correlate_incident_constant_witness:
  "correlation_request ([] :: py_dict) = Inr [] \<and>
   correlate_route correlation_request ([] :: py_dict) (startup :: unit world) =
     (Inr [(''status'', PyStr ''new''), (''correlation_id'', PyNone)], startup) \<and>
   (\<lambda>p :: py_dict. if p = [] then Inl (HTTPException 422 ''Field required'') else Inr p) [] =
     Inl (HTTPException 422 ''Field required'') \<and>
   correlate_route
     (\<lambda>p :: py_dict. if p = [] then Inl (HTTPException 422 ''Field required'') else Inr p)
     [] (startup :: unit world) =
     (Inl (HTTPException 422 ''Field required''), startup)"
proof -
  let ?v = "\<lambda>p :: py_dict. if p = [] then Inl (HTTPException 422 ''Field required'') else Inr p"
  have h: "correlation_request ([] :: py_dict) = Inr []"
    by (simp add: correlation_request_def)
  from correlate_incident_constant
         [of correlation_request "[] :: py_dict" "[] :: py_dict" "startup :: unit world"]
  have "correlation_request ([] :: py_dict) = Inr [] \<longrightarrow>
        correlate_route correlation_request ([] :: py_dict) (startup :: unit world) =
          (Inr [(''status'', PyStr ''new''), (''correlation_id'', PyNone)], startup)"
    by (rule conjunct1)
  then have a: "correlate_route correlation_request ([] :: py_dict) (startup :: unit world) =
          (Inr [(''status'', PyStr ''new''), (''correlation_id'', PyNone)], startup)"
    using h by (rule mp)
  have k: "?v [] = Inl (HTTPException 422 ''Field required'')"
    by simp
  from correlate_incident_constant
         [of ?v "[] :: py_dict" "[] :: py_dict" "startup :: unit world"
             "HTTPException 422 ''Field required''"]
  have "?v [] = Inl (HTTPException 422 ''Field required'') \<longrightarrow>
        correlate_route ?v [] (startup :: unit world) =
          (Inl (HTTPException 422 ''Field required''), startup)"
    by (rule conjunct1 [OF conjunct2])
  then have b: "correlate_route ?v [] (startup :: unit world) =
          (Inl (HTTPException 422 ''Field required''), startup)"
    using k by (rule mp)
  from h a k b show ?thesis by (intro conjI)
qed

subsection \<open>The frame of the claimed set\<close>

lemma get_incidents_frame: "claimed_incidents (snd (get_incidents e w)) = claimed_incidents w"
  by (simp add: get_incidents_def Let_def split: sum.splits)

lemma upload_eido_frame: "claimed_incidents (snd (upload_eido e file w)) = claimed_incidents w"
  by (simp add: upload_eido_def Let_def split: sum.splits)

lemma correlate_incident_frame:
  "claimed_incidents (snd (correlate_incident request w)) = claimed_incidents w"
  by (simp add: correlate_incident_def)

lemma serve_total: "\<exists>out. serve e req w out"
proof (cases req)
  case GET_incidents
  have "serve e GET_incidents w (map_sum id Json (fst (get_incidents e w)), snd (get_incidents e w))"
    by (rule serve_incidents) simp
  with GET_incidents show ?thesis by blast
next
  case (POST_claim x)
  have "serve e (POST_claim x) w
          (map_sum id Dict (fst (claim_incident x w)), snd (claim_incident x w))"
    by (rule serve_claim) simp
  with POST_claim show ?thesis by blast
next
  case GET_claimed
  obtain ys where "get_claimed_incidents w ys"
    using listing_exists [of w] by (elim exE)
  then have "serve e GET_claimed w (Inr (Strs ys), w)"
    by (rule serve_claimed)
  with GET_claimed show ?thesis by blast
next
  case (POST_upload f)
  have "serve e (POST_upload f) w
          (map_sum id Json (fst (upload_eido e f w)), snd (upload_eido e f w))"
    by (rule serve_upload) simp
  with POST_upload show ?thesis by blast
next
  case (POST_correlate q)
  have "serve e (POST_correlate q) w
          (map_sum id Dict (fst (correlate_incident q w)), snd (correlate_incident q w))"
    by (rule serve_correlate) simp
  with POST_correlate show ?thesis by blast
qed

text \<open>
  Claim C9. Whatever request is served, with whatever outcome, no identifier leaves the
  claimed set; and unless the request is a claim, the claimed set after it is the set
  before it. (Every request has an outcome: \<open>serve_total\<close>.)
\<close>

theorem only_claim_changes_claimed:
  "serve e req w (res, w') \<Longrightarrow>
   claimed_incidents w |\<subseteq>| claimed_incidents w' \<and>
   ((\<forall>x. req \<noteq> POST_claim x) \<longrightarrow> claimed_incidents w' = claimed_incidents w)"
proof -
  assume "serve e req w (res, w')"
  then show ?thesis
  proof cases
    case (serve_incidents r)
    from serve_incidents(3) have "w' = snd (get_incidents e w)" by simp
    then show ?thesis by (simp add: get_incidents_frame)
  next
    case (serve_claim incident_id r)
    from serve_claim(3) have "w' = snd (claim_incident incident_id w)" by simp
    then have "claimed_incidents w' = finsert incident_id (claimed_incidents w)"
      by (simp add: claimed_after_claim)
    with serve_claim(1) show ?thesis by auto
  next
    case (serve_claimed ys)
    then show ?thesis by simp
  next
    case (serve_upload f r)
    from serve_upload(3) have "w' = snd (upload_eido e f w)" by simp
    then show ?thesis by (simp add: upload_eido_frame)
  next
    case (serve_correlate request r)
    from serve_correlate(3) have "w' = snd (correlate_incident request w)" by simp
    then show ?thesis by (simp add: correlate_incident_frame)
  qed
qed

theorem only_claim_changes_claimed_witness:
  "serve (agent_unreachable ReadTimeout) (GET_incidents :: unit api_request) startup
     (Inl (HTTPException 502 ''Error connecting to EIDO Agent: All connection attempts failed''),
      \<lparr>claimed_incidents = {||}, sent = [Get ''http://eido-agent:8000/api/v1/incidents'']\<rparr>) \<and>
   (\<forall>x. (GET_incidents :: unit api_request) \<noteq> POST_claim x) \<and>
   claimed_incidents
     \<lparr>claimed_incidents = {||}, sent = [Get ''http://eido-agent:8000/api/v1/incidents'' :: py_value outbound_call]\<rparr>
     = claimed_incidents (startup :: py_value world)"
proof -
  let ?e = "agent_unreachable ReadTimeout"
  let ?w = "\<lparr>claimed_incidents = {||},
             sent = [Get ''http://eido-agent:8000/api/v1/incidents'' :: py_value outbound_call]\<rparr>"
  have g: "get_incidents ?e startup =
             (Inl (HTTPException 502 ''Error connecting to EIDO Agent: All connection attempts failed''), ?w)"
    by (simp add: get_incidents_def get_incidents_try_def agent_unreachable_def startup_def)
  have "serve ?e (GET_incidents :: unit api_request) startup
          (map_sum id Json
             (Inl (HTTPException 502 ''Error connecting to EIDO Agent: All connection attempts failed'')),
           ?w)"
    using g by (rule serve_incidents)
  then have s: "serve ?e (GET_incidents :: unit api_request) startup
          (Inl (HTTPException 502 ''Error connecting to EIDO Agent: All connection attempts failed''), ?w)"
    by simp
  have q: "\<forall>x. (GET_incidents :: unit api_request) \<noteq> POST_claim x"
    by simp
  from only_claim_changes_claimed [OF s] have "claimed_incidents ?w = claimed_incidents (startup :: py_value world)"
    using q by (elim conjE impE)
  with s q show ?thesis by (intro conjI)
qed

end
